theory Spec2Isabelle
  imports Complex_Main
begin

section \<open>Value types\<close>

text \<open>
  A TBTK \<open>Index\<close> is an ordered sequence of signed integers. The amplitude values are
  \<open>std::complex<double>\<close>; the code under study only stores, copies, compares against
  the null pointer and (for the Hermitian conjugate) negates the imaginary part, so a
  value is taken as a HOL \<open>complex\<close> number and a \<open>double\<close> as a \<open>real\<close>.
  Rounding never enters the functions embedded here.
\<close>

type_synonym Index = "int list"

text \<open>
  Failures of the C++ code as values. \<open>NullDereference\<close>, \<open>OutOfBounds\<close> and
  \<open>SignedOverflow\<close> stand for undefined behaviour (no result is defined),
  \<open>IndexNotFound\<close> for the lookup miss of \<open>Model::getBasisIndex\<close>,
  \<open>BadArrayLength\<close> for \<open>new double[n]\<close> with negative \<open>n\<close>, and
  \<open>NoModel\<close> for running a solver that has no model.
\<close>

datatype error =
    NullDereference
  | OutOfBounds
  | SignedOverflow
  | IndexNotFound
  | BadArrayLength
  | NoModel

section \<open>HoppingAmplitude (HoppingAmplitude.h)\<close>

text \<open>
  The four private fields of the class. The function pointer \<open>amplitudeCallback\<close> is an
  option: \<open>None\<close> is the null pointer. A callback is a pure function of the two
  indices it is passed.
\<close>

record HoppingAmplitude =
  amplitude :: complex
  amplitudeCallback :: "(Index \<Rightarrow> Index \<Rightarrow> complex) option"
  fromIndex :: Index
  toIndex :: Index

text \<open>
  \<^verbatim>\<open>if(amplitudeCallback) return amplitudeCallback(toIndex, fromIndex); else return amplitude;\<close>
\<close>

definition getAmplitude :: "HoppingAmplitude \<Rightarrow> complex" where
  "getAmplitude h =
     (case amplitudeCallback h of
        Some cb \<Rightarrow> cb (toIndex h) (fromIndex h)
      | None \<Rightarrow> amplitude h)"

definition getToIndex :: "HoppingAmplitude \<Rightarrow> Index" where
  "getToIndex h = toIndex h"

definition getFromIndex :: "HoppingAmplitude \<Rightarrow> Index" where
  "getFromIndex h = fromIndex h"

text \<open>
  \<^verbatim>\<open>if(amplitudeCallback == nullptr) return false; else return true;\<close>
\<close>

definition getIsCallbackDependent :: "HoppingAmplitude \<Rightarrow> bool" where
  "getIsCallbackDependent h =
     (if amplitudeCallback h = None then False else True)"

definition getAmplitudeCallback ::
  "HoppingAmplitude \<Rightarrow> (Index \<Rightarrow> Index \<Rightarrow> complex) option" where
  "getAmplitudeCallback h = amplitudeCallback h"

text \<open>
  \<open>toString\<close> concatenates, in this order, \<open>"("\<close>, the real part, \<open>", "\<close>, the
  imaginary part, \<open>")"\<close>, \<open>", "\<close>, the to-index and \<open>", "\<close>, the from-index. It reads
  the field \<open>amplitude\<close>, not \<open>getAmplitude()\<close>. \<open>std::to_string(double)\<close> and
  \<open>Index::toString\<close> are not part of the header; they are the parameters \<open>dts\<close> and
  \<open>its\<close>.
\<close>

definition toString ::
  "(real \<Rightarrow> string) \<Rightarrow> (Index \<Rightarrow> string) \<Rightarrow> HoppingAmplitude \<Rightarrow> string" where
  "toString dts its h =
     ''('' @ dts (Re (amplitude h)) @ '', '' @ dts (Im (amplitude h)) @ '')''
       @ '', '' @ its (toIndex h)
       @ '', '' @ its (fromIndex h)"

text \<open>
  Modelled from the spec: \<open>HoppingAmplitude::getHermitianConjugate\<close>, which the header
  only declares. The spec describes its result as the mirrored entry
  \<open>(fromIndex, toIndex, conjugate(value))\<close>: the two indices change places and the
  value is the complex conjugate of the value of the entry.
\<close>

definition getHermitianConjugate :: "HoppingAmplitude \<Rightarrow> HoppingAmplitude" where
  "getHermitianConjugate h =
     \<lparr> amplitude = cnj (getAmplitude h),
       amplitudeCallback = None,
       fromIndex = toIndex h,
       toIndex = fromIndex h \<rparr>"

text \<open>The enum \<open>HermitianConjugate\<close> has the single value \<open>HC\<close>.\<close>

datatype HermitianConjugate = HC

text \<open>
  \<^verbatim>\<open>operator+(HermitianConjugate hc)\<close>:
  \<^verbatim>\<open>return std::make_tuple(*this, this->getHermitianConjugate());\<close>
\<close>

definition plus_HC ::
  "HoppingAmplitude \<Rightarrow> HermitianConjugate \<Rightarrow> HoppingAmplitude \<times> HoppingAmplitude" where
  "plus_HC h hc = (h, getHermitianConjugate h)"

text \<open>
  For the examples: an entry from \<open>[7]\<close> to \<open>[3]\<close> whose callback returns the first
  component of the to-index as real part and that of the from-index as imaginary part.
\<close>

definition ha_with_callback :: HoppingAmplitude where
  "ha_with_callback =
     \<lparr> amplitude = 0,
       amplitudeCallback = Some (\<lambda>to from. Complex (of_int (hd to)) (of_int (hd from))),
       fromIndex = [7], toIndex = [3] \<rparr>"

section \<open>DOS (DOS.cpp)\<close>

text \<open>
  The fields the constructor assigns. \<open>data\<close> is the array obtained from
  \<open>new double[resolution]\<close>, as the list of its entries.
\<close>

record DOS =
  lowerBound :: real
  upperBound :: real
  resolution :: int
  data :: "real list"

text \<open>
  The loop \<^verbatim>\<open>for(int n = 0; n < resolution; n++) data[n] = 0.;\<close> as a recursion on
  the loop counter. A write outside the array has no defined result. The counter never
  exceeds \<open>resolution\<close>, so \<open>n++\<close> cannot overflow an \<open>int\<close>.
\<close>

function DOS_fill :: "int \<Rightarrow> int \<Rightarrow> real list \<Rightarrow> error + real list" where
  "DOS_fill n res d =
     (if n < res then
        (if 0 \<le> n \<and> nat n < length d then DOS_fill (n + 1) res (d[nat n := 0])
         else Inl OutOfBounds)
      else Inr d)"
  by pat_completeness auto
termination
  by (relation "measure (\<lambda>(n, res, d). nat (res - n))") auto

text \<open>
  \<open>new double[n]\<close> returns \<open>n\<close> entries with indeterminate contents: entry \<open>k\<close> of
  the fresh array is \<open>junk k\<close>, for an arbitrary \<open>junk\<close>.
\<close>

definition new_double_array :: "(nat \<Rightarrow> real) \<Rightarrow> nat \<Rightarrow> real list" where
  "new_double_array junk n = map junk [0..<n]"

text \<open>
  The constructor \<open>DOS::DOS(lowerBound, upperBound, resolution)\<close>. Since C++11 a
  negative array length makes \<open>new\<close> throw \<open>std::bad_array_new_length\<close>.
\<close>

definition DOS_new :: "(nat \<Rightarrow> real) \<Rightarrow> real \<Rightarrow> real \<Rightarrow> int \<Rightarrow> error + DOS" where
  "DOS_new junk lb ub res =
     (if res < 0 then Inl BadArrayLength
      else
        (case DOS_fill 0 res (new_double_array junk (nat res)) of
           Inl e \<Rightarrow> Inl e
         | Inr d \<Rightarrow> Inr \<lparr> lowerBound = lb, upperBound = ub, resolution = res, data = d \<rparr>))"

section \<open>DiagonalizationSolver (DiagonalizationSolver.h)\<close>

text \<open>
  Modelled from the spec: the two queries of class \<open>Model\<close> that the solver calls,
  \<open>getBasisSize\<close> and \<open>getBasisIndex\<close>; \<open>Model.h\<close> is not among the sources. A sealed
  model has a basis size \<open>N\<close> and a table from the declared indices to their basis
  positions; \<open>getBasisIndex\<close> fails with a "not found" condition for an index that was
  never declared.
\<close>

record Model =
  basisSize :: int
  basisIndex :: "Index \<rightharpoonup> int"

definition getBasisSize :: "Model \<Rightarrow> int" where
  "getBasisSize m = basisSize m"

definition getBasisIndex :: "Model \<Rightarrow> Index \<Rightarrow> error + int" where
  "getBasisIndex m ix =
     (case basisIndex m ix of None \<Rightarrow> Inl IndexNotFound | Some b \<Rightarrow> Inr b)"


text \<open>
  The six private fields of the class. Every pointer is an option, \<open>None\<close> being the
  null pointer; a pointer to an array is the list of the entries of the array. The
  function pointer \<open>scCallback\<close> is the address of the callback function.
\<close>

type_synonym fnptr = nat

record DiagonalizationSolver =
  model :: "Model option"
  hamiltonian :: "complex list option"
  eigenValues :: "real list option"
  eigenVectors :: "complex list option"
  maxIterations :: int
  scCallback :: "fnptr option"

text \<open>\<^verbatim>\<open>this->model = model;\<close>\<close>

definition setModel :: "DiagonalizationSolver \<Rightarrow> Model option \<Rightarrow> DiagonalizationSolver" where
  "setModel s m = s\<lparr>model := m\<rparr>"



text \<open>\<^verbatim>\<open>return eigenValues;\<close> and \<^verbatim>\<open>return eigenVectors;\<close>: the pointer, as it is.\<close>

definition getEigenValues :: "DiagonalizationSolver \<Rightarrow> real list option" where
  "getEigenValues s = eigenValues s"

definition getEigenVectors :: "DiagonalizationSolver \<Rightarrow> complex list option" where
  "getEigenVectors s = eigenVectors s"

definition getModel :: "DiagonalizationSolver \<Rightarrow> Model option" where
  "getModel s = model s"

text \<open>The range of a C++ \<open>int\<close> (32 bits); arithmetic that leaves it is undefined.\<close>

definition in_int :: "int \<Rightarrow> bool" where
  "in_int x = (- (2 ^ 31) \<le> x \<and> x < 2 ^ 31)"

text \<open>
  \<open>DiagonalizationSolver::getAmplitude(state, index)\<close>:
  \<^verbatim>\<open>return eigenVectors[model->getBasisSize()*state + model->getBasisIndex(index)];\<close>
  Both calls go through the pointer \<open>model\<close>; the offset is computed in \<open>int\<close>; the
  read goes through the pointer \<open>eigenVectors\<close>. The code checks none of this, so a null
  pointer, an overflow and an offset outside the buffer are undefined behaviour, which
  the model reports as errors.
\<close>

definition solver_getAmplitude :: "DiagonalizationSolver \<Rightarrow> int \<Rightarrow> Index \<Rightarrow> error + complex" where
  "solver_getAmplitude s state ix =
     (case model s of
        None \<Rightarrow> Inl NullDereference
      | Some m \<Rightarrow>
          (case getBasisIndex m ix of
             Inl e \<Rightarrow> Inl e
           | Inr b \<Rightarrow>
               (if \<not> in_int (getBasisSize m * state)
                   \<or> \<not> in_int (getBasisSize m * state + b)
                then Inl SignedOverflow
                else
                  (case eigenVectors s of
                     None \<Rightarrow> Inl NullDereference
                   | Some ev \<Rightarrow>
                       (if 0 \<le> getBasisSize m * state + b
                           \<and> nat (getBasisSize m * state + b) < length ev
                        then Inr (ev ! nat (getBasisSize m * state + b))
                        else Inl OutOfBounds)))))"

text \<open>
  The Solved state of the spec's state machine, read off the fields: a model with basis
  size \<open>N\<close> is set, the eigenvalue buffer has \<open>N\<close> entries and the eigenvector buffer
  \<open>N * N\<close>, a count that fits the \<open>int\<close> in which the offsets are computed.
\<close>

definition Solved :: "DiagonalizationSolver \<Rightarrow> bool" where
  "Solved s =
     (case model s of
        None \<Rightarrow> False
      | Some m \<Rightarrow>
          0 \<le> basisSize m \<and> in_int (basisSize m * basisSize m)
          \<and> (case eigenValues s of
                None \<Rightarrow> False
              | Some vals \<Rightarrow> int (length vals) = basisSize m)
          \<and> (case eigenVectors s of
                None \<Rightarrow> False
              | Some vecs \<Rightarrow> int (length vecs) = basisSize m * basisSize m))"

text \<open>
  Concrete solvers for the examples: a model with the two basis states \<open>[0]\<close> and
  \<open>[1]\<close>, a model with the single state \<open>[0]\<close>, a solver that has a model but has not
  run, and solvers holding the eigen-system of \<open>diag(1, 2)\<close> and of the 1 by 1 matrix
  \<open>(5)\<close>.
\<close>

definition model_two :: Model where
  "model_two = \<lparr> basisSize = 2, basisIndex = [[0] \<mapsto> 0, [1] \<mapsto> 1] \<rparr>"

definition model_one :: Model where
  "model_one = \<lparr> basisSize = 1, basisIndex = [[0] \<mapsto> 0] \<rparr>"

definition solver_not_run :: DiagonalizationSolver where
  "solver_not_run =
     \<lparr> model = Some model_two, hamiltonian = None, eigenValues = None,
       eigenVectors = None, maxIterations = 50, scCallback = None \<rparr>"

definition solver_solved_two :: DiagonalizationSolver where
  "solver_solved_two =
     \<lparr> model = Some model_two, hamiltonian = Some [1, 0, 0, 2],
       eigenValues = Some [1, 2], eigenVectors = Some [1, 0, 0, \<i>],
       maxIterations = 50, scCallback = None \<rparr>"

definition solver_solved_one :: DiagonalizationSolver where
  "solver_solved_one =
     \<lparr> model = Some model_one, hamiltonian = Some [5],
       eigenValues = Some [5], eigenVectors = Some [1],
       maxIterations = 50, scCallback = None \<rparr>"

section \<open>The self-consistency loop of DiagonalizationSolver\<close>



















section \<open>Properties of HoppingAmplitude\<close>

text \<open>
  Claim C4. The value source of a hopping amplitude is decided by the callback pointer
  alone: when a callback is set, \<open>getAmplitude\<close> is the callback applied to
  \<open>(toIndex, fromIndex)\<close>, in this order; when none is set it is the stored fixed value;
  and \<open>getIsCallbackDependent\<close> is true exactly when a callback is set. So one and only
  one of the two sources is active for every entry.
\<close>

theorem getAmplitude_active_source:
  "(\<forall>cb. amplitudeCallback h = Some cb \<longrightarrow>
        getAmplitude h = cb (toIndex h) (fromIndex h) \<and> getIsCallbackDependent h)
   \<and> (amplitudeCallback h = None \<longrightarrow>
        getAmplitude h = amplitude h \<and> \<not> getIsCallbackDependent h)
   \<and> (getIsCallbackDependent h \<longleftrightarrow> amplitudeCallback h \<noteq> None)"
  by (simp add: getAmplitude_def getIsCallbackDependent_def)

theorem getAmplitude_active_source_witness:
  "amplitudeCallback ha_with_callback
     = Some (\<lambda>to from. Complex (of_int (hd to)) (of_int (hd from)))
   \<and> getAmplitude ha_with_callback = Complex 3 7
   \<and> getIsCallbackDependent ha_with_callback"
proof -
  have cb: "amplitudeCallback ha_with_callback
     = Some (\<lambda>to from. Complex (of_int (hd to)) (of_int (hd from)))"
    by (simp add: ha_with_callback_def)
  have ti: "toIndex ha_with_callback = [3]" and fi: "fromIndex ha_with_callback = [7]"
    by (simp_all add: ha_with_callback_def)
  show ?thesis
    using getAmplitude_active_source [of ha_with_callback] cb ti fi by simp
qed

text \<open>
  Claim C5. \<open>h + HC\<close> is the pair of \<open>h\<close> itself and its Hermitian conjugate; the
  second component has the two indices of \<open>h\<close> exchanged and, as its value, the complex
  conjugate of the value of \<open>h\<close>.
\<close>

theorem plus_HC_pair:
  "plus_HC h HC = (h, getHermitianConjugate h)
   \<and> getToIndex (snd (plus_HC h HC)) = getFromIndex h
   \<and> getFromIndex (snd (plus_HC h HC)) = getToIndex h
   \<and> getAmplitude (snd (plus_HC h HC)) = cnj (getAmplitude h)"
  by (simp add: plus_HC_def getHermitianConjugate_def getToIndex_def getFromIndex_def
      getAmplitude_def)

text \<open>
  Claim C9. \<open>toString\<close> is the bracketed pair of the real and imaginary part of the
  field \<open>amplitude\<close>, followed by the to-index and the from-index. The callback has no
  influence on it: an entry with a callback prints exactly as the same entry without
  one, although its \<open>getAmplitude\<close> is the value of the callback.
\<close>

theorem toString_prints_fixed_field:
  "toString dts its h =
     ''('' @ dts (Re (amplitude h)) @ '', '' @ dts (Im (amplitude h)) @ '')''
       @ '', '' @ its (toIndex h) @ '', '' @ its (fromIndex h)
   \<and> toString dts its (h\<lparr>amplitudeCallback := Some cb\<rparr>)
     = toString dts its (h\<lparr>amplitudeCallback := None\<rparr>)
   \<and> getAmplitude (h\<lparr>amplitudeCallback := Some cb\<rparr>) = cb (toIndex h) (fromIndex h)
   \<and> getAmplitude (h\<lparr>amplitudeCallback := None\<rparr>) = amplitude h"
  by (simp add: toString_def getAmplitude_def)

section \<open>Properties of DOS\<close>

lemma DOS_fill_zeroes:
  "0 \<le> n \<Longrightarrow> n \<le> res \<Longrightarrow> length d = nat res \<Longrightarrow>
     DOS_fill n res d = Inr (take (nat n) d @ replicate (nat (res - n)) 0)"
proof (induction n res d rule: DOS_fill.induct)
  case (1 n res d)
  show ?case
  proof (cases "n < res")
    case False
    with "1.prems" have "n = res" by simp
    with "1.prems" show ?thesis by simp
  next
    case True
    with "1.prems" have inb: "0 \<le> n \<and> nat n < length d" by auto
    have step: "DOS_fill (n + 1) res (d[nat n := 0])
        = Inr (take (nat (n + 1)) (d[nat n := 0]) @ replicate (nat (res - (n + 1))) 0)"
      using "1.IH" [OF True inb] True "1.prems" by simp
    have nat_suc: "nat (n + 1) = Suc (nat n)"
      using inb by (simp add: nat_add_distrib)
    have tk: "take (Suc (nat n)) (d[nat n := 0]) = take (nat n) d @ [0]"
      using inb by (simp add: take_Suc_conv_app_nth)
    have rp: "replicate (nat (res - n)) (0::real) = 0 # replicate (nat (res - (n + 1))) 0"
    proof -
      have "nat (res - n) = Suc (nat (res - (n + 1)))" using True by simp
      then show ?thesis by simp
    qed
    have "DOS_fill n res d = DOS_fill (n + 1) res (d[nat n := 0])"
      using True inb by simp
    then show ?thesis
      using step nat_suc tk rp by simp
  qed
qed

text \<open>
  Claim C10. For every lower bound, upper bound and positive resolution, whatever the
  fresh memory holds, the constructor succeeds and the new object has a data buffer of
  exactly \<open>resolution\<close> entries, each of them 0.
\<close>

theorem DOS_new_all_zero:
  assumes "0 < res"
  shows "\<exists>dos. DOS_new junk lb ub res = Inr dos
           \<and> lowerBound dos = lb \<and> upperBound dos = ub \<and> resolution dos = res
           \<and> int (length (data dos)) = res
           \<and> data dos = replicate (nat res) 0"
proof -
  have "DOS_fill 0 res (new_double_array junk (nat res)) = Inr (replicate (nat res) 0)"
    using assms DOS_fill_zeroes [of 0 res "new_double_array junk (nat res)"]
    by (simp add: new_double_array_def)
  then show ?thesis
    using assms by (simp add: DOS_new_def)
qed

theorem DOS_new_all_zero_witness:
  "(0::int) < 3
   \<and> (\<exists>dos. DOS_new (\<lambda>k. 1 + real k) (-1) 1 3 = Inr dos
        \<and> lowerBound dos = -1 \<and> upperBound dos = 1 \<and> resolution dos = 3
        \<and> int (length (data dos)) = 3
        \<and> data dos = replicate (nat 3) 0)"
  using DOS_new_all_zero [of 3 "\<lambda>k. 1 + real k" "-1" 1] by simp

section \<open>Properties of the accessors of DiagonalizationSolver\<close>

lemma offset_in_buffer:
  fixes N n b :: int
  assumes "0 \<le> n" "n < N" "0 \<le> b" "b < N"
  shows "0 \<le> N * n" "N * n \<le> N * n + b" "N * n + b < N * N"
proof -
  from assms have N0: "0 \<le> N" by simp
  show "0 \<le> N * n" using N0 assms(1) by simp
  show "N * n \<le> N * n + b" using assms(3) by simp
  have "n + 1 \<le> N" using assms(2) by simp
  then have "N * (n + 1) \<le> N * N" using N0 by (rule mult_left_mono)
  then show "N * n + b < N * N" using assms(4) by (simp add: algebra_simps)
qed

text \<open>
  Claim C1. On a solved driver with basis size \<open>N\<close>, for an eigenstate number \<open>n\<close>
  (one of \<open>0, ..., N - 1\<close>) and an index that resolves to a valid basis position,
  \<open>getAmplitude(n, ix)\<close> returns the entry \<open>N * n + getBasisIndex(ix)\<close> of the flat
  eigenvector buffer. For an index outside the declared basis the call fails, with the
  failure of \<open>getBasisIndex\<close>.
\<close>

theorem solver_getAmplitude_entry:
  assumes "Solved s" and "model s = Some m" and "eigenVectors s = Some vecs"
  shows "(\<forall>n b. 0 \<le> n \<and> n < getBasisSize m
               \<and> getBasisIndex m ix = Inr b \<and> 0 \<le> b \<and> b < getBasisSize m
             \<longrightarrow> solver_getAmplitude s n ix = Inr (vecs ! nat (getBasisSize m * n + b)))
         \<and> (\<forall>n. ix \<notin> dom (basisIndex m)
             \<longrightarrow> getBasisIndex m ix = Inl IndexNotFound
                 \<and> solver_getAmplitude s n ix = Inl IndexNotFound)"
proof (intro conjI allI impI)
  fix n b
  assume h: "0 \<le> n \<and> n < getBasisSize m
               \<and> getBasisIndex m ix = Inr b \<and> 0 \<le> b \<and> b < getBasisSize m"
  let ?N = "basisSize m"
  have N: "getBasisSize m = ?N" by (simp add: getBasisSize_def)
  from assms have fits: "in_int (?N * ?N)" and len: "int (length vecs) = ?N * ?N"
    by (simp_all add: Solved_def)
  from h N have r: "0 \<le> n" "n < ?N" "0 \<le> b" "b < ?N" by simp_all
  note off = offset_in_buffer [OF r]
  have i1: "in_int (?N * n)" and i2: "in_int (?N * n + b)"
    using fits off by (simp_all add: in_int_def)
  have lt: "nat (?N * n + b) < length vecs"
    using off len by linarith
  have ge: "0 \<le> ?N * n + b" using off by linarith
  show "solver_getAmplitude s n ix = Inr (vecs ! nat (getBasisSize m * n + b))"
    using assms(2,3) h i1 i2 lt ge by (simp add: solver_getAmplitude_def N)
next
  fix n
  assume "ix \<notin> dom (basisIndex m)"
  then have "basisIndex m ix = None" by (simp add: domIff)
  then show "getBasisIndex m ix = Inl IndexNotFound"
    by (simp add: getBasisIndex_def)
  then show "solver_getAmplitude s n ix = Inl IndexNotFound"
    using assms(2) by (simp add: solver_getAmplitude_def)
qed

theorem solver_getAmplitude_entry_witness:
  "Solved solver_solved_two
   \<and> model solver_solved_two = Some model_two
   \<and> eigenVectors solver_solved_two = Some [1, 0, 0, \<i>]
   \<and> getBasisSize model_two = 2
   \<and> getBasisIndex model_two [1] = Inr 1
   \<and> solver_getAmplitude solver_solved_two 1 [1] = Inr ([1, 0, 0, \<i>] ! 3)
   \<and> [5] \<notin> dom (basisIndex model_two)
   \<and> solver_getAmplitude solver_solved_two 0 [5] = Inl IndexNotFound"
proof -
  have h1: "Solved solver_solved_two"
    by (simp add: Solved_def solver_solved_two_def model_two_def in_int_def)
  have h2: "model solver_solved_two = Some model_two"
    by (simp add: solver_solved_two_def)
  have h3: "eigenVectors solver_solved_two = Some [1, 0, 0, \<i>]"
    by (simp add: solver_solved_two_def)
  have h4: "getBasisSize model_two = 2"
    by (simp add: getBasisSize_def model_two_def)
  have h5: "getBasisIndex model_two [1] = Inr 1"
    by (simp add: getBasisIndex_def model_two_def)
  have h6: "[5] \<notin> dom (basisIndex model_two)"
    by (simp add: model_two_def)
  have "solver_getAmplitude solver_solved_two 1 [1] = Inr ([1, 0, 0, \<i>] ! 3)"
    using solver_getAmplitude_entry [OF h1 h2 h3, of "[1]"] h4 h5 by simp
  moreover have "solver_getAmplitude solver_solved_two 0 [5] = Inl IndexNotFound"
    using solver_getAmplitude_entry [OF h1 h2 h3, of "[5]"] h6 by simp
  ultimately show ?thesis
    using h1 h2 h3 h4 h5 h6 by simp
qed

text \<open>
  Claim C2, as stated, fails: on a solver that has a model but has not run, the two
  buffer accessors return the null pointer instead of raising an error.
\<close>

theorem accessors_before_solve_counterexample:
  "\<not> Solved solver_not_run
   \<and> getEigenValues solver_not_run = None
   \<and> getEigenVectors solver_not_run = None"
  by (simp add: Solved_def solver_not_run_def getEigenValues_def getEigenVectors_def)

text \<open>
  Claim C2, amended. \<open>getEigenValues\<close> and \<open>getEigenVectors\<close> check nothing: in every
  state they return the buffer pointer the solver holds, null as long as no buffer
  exists. \<open>getAmplitude(state, index)\<close> has no defined result (an error of the model)
  when the solver has no model or no eigenvector buffer. In the Solved state the two
  accessors return the eigenvalue buffer of \<open>N\<close> entries and the eigenvector buffer of
  \<open>N * N\<close> entries.
\<close>

theorem accessors_unchecked:
  "getEigenValues s = eigenValues s
   \<and> getEigenVectors s = eigenVectors s
   \<and> (model s = None \<or> eigenVectors s = None \<longrightarrow> isl (solver_getAmplitude s n ix))
   \<and> (Solved s \<longrightarrow>
        (\<exists>m vals vecs. model s = Some m
           \<and> getEigenValues s = Some vals \<and> int (length vals) = getBasisSize m
           \<and> getEigenVectors s = Some vecs
           \<and> int (length vecs) = getBasisSize m * getBasisSize m))"
proof (intro conjI impI)
  show "getEigenValues s = eigenValues s" by (simp add: getEigenValues_def)
  show "getEigenVectors s = eigenVectors s" by (simp add: getEigenVectors_def)
next
  assume "model s = None \<or> eigenVectors s = None"
  then show "isl (solver_getAmplitude s n ix)"
    by (auto simp: solver_getAmplitude_def split: option.splits sum.splits)
next
  assume "Solved s"
  then show "\<exists>m vals vecs. model s = Some m
           \<and> getEigenValues s = Some vals \<and> int (length vals) = getBasisSize m
           \<and> getEigenVectors s = Some vecs
           \<and> int (length vecs) = getBasisSize m * getBasisSize m"
    by (auto simp: Solved_def getEigenValues_def getEigenVectors_def getBasisSize_def
        split: option.splits)
qed

theorem accessors_unchecked_witness:
  "eigenVectors solver_not_run = None
   \<and> isl (solver_getAmplitude solver_not_run 0 [0])
   \<and> Solved solver_solved_two
   \<and> getEigenValues solver_solved_two = Some [1, 2]
   \<and> getEigenVectors solver_solved_two = Some [1, 0, 0, \<i>]"
proof -
  have h1: "eigenVectors solver_not_run = None"
    by (simp add: solver_not_run_def)
  have h2: "Solved solver_solved_two"
    by (simp add: Solved_def solver_solved_two_def model_two_def in_int_def)
  have "isl (solver_getAmplitude solver_not_run 0 [0])"
    using accessors_unchecked [of solver_not_run 0 "[0]"] h1 by simp
  moreover have "getEigenValues solver_solved_two = Some [1, 2]"
    and "getEigenVectors solver_solved_two = Some [1, 0, 0, \<i>]"
    using accessors_unchecked [of solver_solved_two] by (simp_all add: solver_solved_two_def)
  ultimately show ?thesis using h1 h2 by simp
qed

text \<open>
  Claim C7, as stated, fails: a solver solved for a model of basis size 1 is given a
  model of basis size 2, and the accessors keep serving the old one-entry buffers.
\<close>

theorem setModel_keeps_buffers_counterexample:
  "Solved solver_solved_one
   \<and> getBasisSize model_two \<noteq> getBasisSize model_one
   \<and> getModel (setModel solver_solved_one (Some model_two)) = Some model_two
   \<and> getEigenValues (setModel solver_solved_one (Some model_two)) = Some [5]
   \<and> getEigenVectors (setModel solver_solved_one (Some model_two)) = Some [1]
   \<and> solver_getAmplitude (setModel solver_solved_one (Some model_two)) 0 [0] = Inr 1"
  by (simp add: Solved_def solver_solved_one_def model_one_def model_two_def in_int_def
      getBasisSize_def getBasisIndex_def getModel_def setModel_def getEigenValues_def
      getEigenVectors_def solver_getAmplitude_def)

text \<open>
  Claim C7, amended. \<open>setModel\<close> stores the model pointer it is given, so the solver
  has a model from then on when the pointer is not null, and changes nothing else: the
  Hamiltonian, the eigenvalue and eigenvector buffers, the iteration ceiling and the
  callback stay as they were, whatever the basis size of the new model, and the
  accessors return the same buffers as before the call.
\<close>

theorem setModel_only_sets_model:
  "getModel (setModel s p) = p
   \<and> hamiltonian (setModel s p) = hamiltonian s
   \<and> eigenValues (setModel s p) = eigenValues s
   \<and> eigenVectors (setModel s p) = eigenVectors s
   \<and> maxIterations (setModel s p) = maxIterations s
   \<and> scCallback (setModel s p) = scCallback s
   \<and> getEigenValues (setModel s p) = getEigenValues s
   \<and> getEigenVectors (setModel s p) = getEigenVectors s"
  by (simp add: setModel_def getModel_def getEigenValues_def getEigenVectors_def)

section \<open>Properties of the self-consistency loop\<close>














end
